theory Spec2Isabelle
  imports Complex_Main "HOL-Library.Char_ord" "HOL-Library.List_Lexorder"
begin

section \<open>Values, arrays and tables\<close>

text \<open>
  A voxel value is a floating-point number. Only comparisons are made on voxel values by
  the code modelled here, and a comparison of two floats is exact, so a finite value is
  modelled by the real number it denotes; the three non-finite values are kept apart.
\<close>

datatype fval = Finite real | PosInf | NegInf | NaN

text \<open>The comparison \<^verbatim>\<open>a < b\<close> of two floats: false as soon as one side is NaN.\<close>

fun fless :: "fval \<Rightarrow> fval \<Rightarrow> bool" where
  "fless (Finite a) (Finite b) = (a < b)"
| "fless (Finite a) PosInf = True"
| "fless NegInf (Finite b) = True"
| "fless NegInf PosInf = True"
| "fless _ _ = False"

text \<open>
  \<^verbatim>\<open>np.isclose(a, b)\<close> with numpy's default tolerances \<^verbatim>\<open>rtol=1e-05\<close>,
  \<^verbatim>\<open>atol=1e-08\<close> and \<^verbatim>\<open>equal_nan=False\<close>: two finite values are close when
  \<^verbatim>\<open>abs(a - b) <= atol + rtol * abs(b)\<close>, a non-finite value is close to itself only,
  and NaN is close to nothing.
\<close>

definition rtol :: real where
  "rtol = 1 / 100000"

definition atol :: real where
  "atol = 1 / 100000000"

fun isclose :: "fval \<Rightarrow> fval \<Rightarrow> bool" where
  "isclose (Finite a) (Finite b) = (\<bar>a - b\<bar> \<le> atol + rtol * \<bar>b\<bar>)"
| "isclose PosInf PosInf = True"
| "isclose NegInf NegInf = True"
| "isclose _ _ = False"

text \<open>An n-dimensional array: its shape and its values in row-major order.\<close>

record ndarray =
  arr_shape :: "nat list"
  arr_data :: "fval list"

text \<open>\<^verbatim>\<open>np.allclose(arr, b)\<close> and \<^verbatim>\<open>np.any(arr < b)\<close> for a scalar \<open>b\<close>.\<close>

definition allclose :: "ndarray \<Rightarrow> fval \<Rightarrow> bool" where
  "allclose arr b = list_all (\<lambda>v. isclose v b) (arr_data arr)"

definition any_less :: "ndarray \<Rightarrow> fval \<Rightarrow> bool" where
  "any_less arr b = list_ex (\<lambda>v. fless v b) (arr_data arr)"

text \<open>
  voxcell's \<^verbatim>\<open>VoxelData\<close>: the array \<^verbatim>\<open>raw\<close> with the voxel dimensions and the
  offset of the volume. Its \<^verbatim>\<open>shape\<close> is the spatial part of the shape of \<^verbatim>\<open>raw\<close>,
  and \<^verbatim>\<open>with_data\<close> puts another array under the same voxel dimensions and offset.
\<close>

record voxeldata =
  raw :: ndarray
  voxel_dimensions :: "real list"
  offset :: "real list"

definition shape :: "voxeldata \<Rightarrow> nat list" where
  "shape v = take (length (voxel_dimensions v)) (arr_shape (raw v))"

definition with_data :: "voxeldata \<Rightarrow> ndarray \<Rightarrow> voxeldata" where
  "with_data v d = \<lparr>raw = d, voxel_dimensions = voxel_dimensions v, offset = offset v\<rparr>"

text \<open>
  The taxonomy dataframe, as \<^verbatim>\<open>pd.read_csv\<close> returns it: the columns in file order,
  each with its label and its cells. Labels and cells are strings.
\<close>

type_synonym dataframe = "(string \<times> string list) list"

definition columns :: "dataframe \<Rightarrow> string list" where
  "columns df = map fst df"

text \<open>
  The composition dataframe has the three columns \<^verbatim>\<open>density\<close>, \<^verbatim>\<open>layer\<close> and
  \<^verbatim>\<open>mtype\<close> that \<^verbatim>\<open>_load_neuronal_mtype_composition\<close> gives it; it is kept as its
  list of rows.
\<close>

record comp_row =
  row_density :: fval
  row_layer :: string
  row_mtype :: string

type_synonym composition = "comp_row list"

text \<open>A configuration dictionary read from a yaml file, the keys in file order.\<close>

type_synonym config = "(string \<times> string) list"

section \<open>Errors\<close>

text \<open>
  The text of an \<^verbatim>\<open>AtlasDensitiesError\<close> is kept as the message it is, together with
  the values the source formats into it. Where the source prints a Python set, whose
  order of iteration is not fixed, the value is the set.
\<close>

datatype message =
    NoNeuronDensityFiles
  | MissingConfigKeys "string set"
  | ColumnNameMismatch "string set" "string list"
  | SClassValuesDiffer "string set" "string set"
  | ZerosEverywhere
  | NegativeValues
  | NegativeComposition
  | InconsistentMtypes "string set" "string set" "string list" "string list"

text \<open>
  \<open>KeyError\<close> is Python's own error on a missing dictionary key or dataframe column,
  \<open>MismatchError\<close> the error of the field consistency check, and \<open>External\<close> any error
  that a collaborator outside this module raises (a file that cannot be read, a
  failure inside an allocation routine).
\<close>

datatype error =
    AtlasDensitiesError message
  | KeyError string
  | MismatchError
  | External string

definition getitem :: "(string \<times> 'v) list \<Rightarrow> string \<Rightarrow> error + 'v" where
  "getitem d k = (case map_of d k of None \<Rightarrow> Inl (KeyError k) | Some v \<Rightarrow> Inr v)"

section \<open>The validation functions\<close>

text \<open>
  \<^verbatim>\<open>_check_config_sanity\<close>: the two expected keys minus the keys of the configuration
  must be empty.
\<close>

definition check_config_sanity :: "(string \<times> 'v) list \<Rightarrow> error + unit" where
  "check_config_sanity config =
     (let diff = {''probabilityMapPath'', ''molecularTypeDensityPaths''} - set (map fst config)
      in if diff \<noteq> {} then Inl (AtlasDensitiesError (MissingConfigKeys diff)) else Inr ())"

text \<open>\<^verbatim>\<open>_validate_mtype_taxonomy\<close>: the column check, then the check of the sClass values.\<close>

definition validate_mtype_taxonomy :: "dataframe \<Rightarrow> error + unit" where
  "validate_mtype_taxonomy taxonomy =
     (let expected_columns = {''mtype'', ''mClass'', ''sClass''}
      in if expected_columns \<noteq> set (columns taxonomy)
         then Inl (AtlasDensitiesError (ColumnNameMismatch expected_columns (columns taxonomy)))
         else (case getitem taxonomy ''sClass'' of
                 Inl e \<Rightarrow> Inl e
               | Inr col \<Rightarrow>
                   (let sclasses = set col; expected_sclasses = {''EXC'', ''INH''}
                    in if expected_sclasses \<noteq> sclasses
                       then Inl (AtlasDensitiesError (SClassValuesDiffer expected_sclasses sclasses))
                       else Inr ())))"

text \<open>\<^verbatim>\<open>_validate_density\<close>: the all-close-to-zero test first, then the test for a negative value.\<close>

definition validate_density :: "voxeldata \<Rightarrow> error + unit" where
  "validate_density density =
     (if allclose (raw density) (Finite 0) then Inl (AtlasDensitiesError ZerosEverywhere)
      else if any_less (raw density) (Finite 0) then Inl (AtlasDensitiesError NegativeValues)
      else Inr ())"

text \<open>\<^verbatim>\<open>_validate_neuronal_mtype_composition\<close>: no density of the composition is below zero.\<close>

definition validate_neuronal_mtype_composition :: "composition \<Rightarrow> error + unit" where
  "validate_neuronal_mtype_composition composition =
     (if list_ex (\<lambda>d. fless d (Finite 0)) (map row_density composition)
      then Inl (AtlasDensitiesError NegativeComposition)
      else Inr ())"

text \<open>
  \<^verbatim>\<open>_check_taxonomy_composition_congruency\<close>: the two sets of mtypes must be equal; the
  message holds the two differences and the two sorted sets.
\<close>

definition check_taxonomy_composition_congruency :: "dataframe \<Rightarrow> composition \<Rightarrow> error + unit" where
  "check_taxonomy_composition_congruency taxonomy composition =
     (case getitem taxonomy ''mtype'' of
        Inl e \<Rightarrow> Inl e
      | Inr col \<Rightarrow>
          (let taxonomy_mtypes = set col;
               composition_mtypes = set (map row_mtype composition)
           in if \<not> taxonomy_mtypes = composition_mtypes
              then Inl (AtlasDensitiesError (InconsistentMtypes
                     (taxonomy_mtypes - composition_mtypes)
                     (composition_mtypes - taxonomy_mtypes)
                     (sorted_list_of_set taxonomy_mtypes)
                     (sorted_list_of_set composition_mtypes)))
              else Inr ()))"

section \<open>Collaborators and effects\<close>

text \<open>
  The files written so far, in the order of the calls of \<^verbatim>\<open>save_nrrd\<close>: each with the
  path it was saved under and the volume saved. \<^verbatim>\<open>Path(a, b)\<close> is kept as its two segments.
\<close>

type_synonym path = "string list"

type_synonym world = "(path \<times> voxeldata) list"

definition Path :: "string \<Rightarrow> string \<Rightarrow> path" where
  "Path a b = [a, b]"

definition save_nrrd :: "voxeldata \<Rightarrow> path \<Rightarrow> world \<Rightarrow> world" where
  "save_nrrd v p w = w @ [(p, v)]"

text \<open>A step of a command either raises or returns a value, and may write files.\<close>

type_synonym 'a io = "world \<Rightarrow> (error + 'a) \<times> world"

definition lift :: "error + 'a \<Rightarrow> 'a io" where
  "lift r w = (r, w)"

definition andthen :: "'a io \<Rightarrow> ('a \<Rightarrow> 'b io) \<Rightarrow> 'b io" where
  "andthen m f w = (case m w of (Inl e, w') \<Rightarrow> (Inl e, w') | (Inr x, w') \<Rightarrow> f x w')"

text \<open>
  The mtype composition file after \<^verbatim>\<open>yaml.safe_load\<close>: a dictionary from cell groups to
  entries. An entry may lack any of the keys the loader reads.
\<close>

record traits_dict =
  traits_layer :: "string option"
  traits_mtype :: "string option"

record entry_dict =
  entry_density :: "fval option"
  entry_traits :: "traits_dict option"

text \<open>
  What the commands call outside this module: the file readers, the three allocation
  routines and the conversion to 32-bit floats. A reader returns the parsed content or
  the error it raises. \<open>create_mtype_densities\<close> and \<open>create_from_map\<close> write their
  own files. \<open>create_from_composition_core\<close> is the generator of
  \<^verbatim>\<open>mtype_densities_from_composition\<close>: the pairs it yields and the error, if any,
  that ends the iteration.
\<close>

record ('dpc, 'rm, 'md, 'pm) ext =
  yaml_load :: "string \<Rightarrow> error + config"
  density_profile_collection_load :: "string \<Rightarrow> string \<Rightarrow> string \<Rightarrow> error + 'dpc"
  json_load :: "string \<Rightarrow> error + 'md"
  region_map_load_json :: "string \<Rightarrow> error + 'rm"
  load_nrrd :: "string \<Rightarrow> error + voxeldata"
  asarray_float32 :: "ndarray \<Rightarrow> ndarray"
  create_mtype_densities ::
    "'dpc \<Rightarrow> voxeldata \<Rightarrow> 'rm \<Rightarrow> 'md \<Rightarrow> ndarray \<Rightarrow> string \<Rightarrow>
     voxeldata option \<Rightarrow> voxeldata option \<Rightarrow> unit io"
  load_probability_map :: "string \<Rightarrow> error + 'pm"
  create_from_map ::
    "voxeldata \<Rightarrow> 'rm \<Rightarrow> (string \<times> ndarray) list \<Rightarrow> 'pm list \<Rightarrow> string \<Rightarrow> string \<Rightarrow> int \<Rightarrow> unit io"
  read_csv :: "string \<Rightarrow> error + dataframe"
  yaml_safe_load :: "string \<Rightarrow> error + (string \<times> entry_dict list) list"
  create_from_composition_core ::
    "voxeldata \<Rightarrow> 'rm \<Rightarrow> 'md \<Rightarrow> ndarray \<Rightarrow> dataframe \<Rightarrow> composition \<Rightarrow>
     (string \<times> ndarray) list \<times> error option"

text \<open>
  Modelled from the spec: \<^verbatim>\<open>assert_properties\<close> and \<^verbatim>\<open>assert_meta_properties\<close> of
  \<^verbatim>\<open>atlas_commons.app_utils\<close> are not part of the sources at hand. The specification
  requires that every field involved in one computation share identical shape, voxel
  size and offset, and that a precondition check fails fatally otherwise.
\<close>

definition same_properties :: "voxeldata list \<Rightarrow> bool" where
  "same_properties vs =
     (case vs of
        [] \<Rightarrow> True
      | v # rest \<Rightarrow>
          list_all (\<lambda>u. shape u = shape v \<and> voxel_dimensions u = voxel_dimensions v \<and>
                         offset u = offset v) rest)"

text \<open>
  Modelled from the spec: \<^verbatim>\<open>assert_properties\<close> (not part of the sources at hand) is the
  precondition check of the specification; it fails fatally when the fields do not share
  shape, voxel size and offset.
\<close>

definition assert_properties :: "voxeldata list \<Rightarrow> error + unit" where
  "assert_properties vs = (if same_properties vs then Inr () else Inl MismatchError)"

text \<open>
  Modelled from the spec: \<^verbatim>\<open>assert_meta_properties\<close> (not part of the sources at hand)
  is the same precondition check, as the commands on profiles and on probability maps
  call it.
\<close>

definition assert_meta_properties :: "voxeldata list \<Rightarrow> error + unit" where
  "assert_meta_properties vs = (if same_properties vs then Inr () else Inl MismatchError)"

section \<open>The command create_from_profile\<close>

text \<open>
  The optional density of the configuration: loaded when its key is there, \<open>None\<close>
  when it is not.
\<close>

definition load_if_configured ::
  "('dpc, 'rm, 'md, 'pm) ext \<Rightarrow> config \<Rightarrow> string \<Rightarrow> error + voxeldata option" where
  "load_if_configured ext config k =
     (if k \<in> set (map fst config)
      then (case getitem config k of
              Inl e \<Rightarrow> Inl e
            | Inr p \<Rightarrow> (case load_nrrd ext p of Inl e \<Rightarrow> Inl e | Inr v \<Rightarrow> Inr (Some v)))
      else Inr None)"

definition appended :: "voxeldata option \<Rightarrow> voxeldata list" where
  "appended d = (case d of None \<Rightarrow> [] | Some v \<Rightarrow> [v])"

text \<open>
  The test before the consistency check reads
  \<^verbatim>\<open>inhibitory_neuron_density is None and inhibitory_neuron_density is None\<close>:
  both operands are the inhibitory density.
\<close>

definition create_from_profile ::
  "('dpc, 'rm, 'md, 'pm) ext \<Rightarrow> string \<Rightarrow> string \<Rightarrow> string \<Rightarrow> string \<Rightarrow> string \<Rightarrow> string \<Rightarrow> unit io" where
  "create_from_profile ext annotation_path hierarchy_path metadata_path direction_vectors_path
       mtypes_config_path output_dir =
     andthen (lift (yaml_load ext mtypes_config_path)) (\<lambda>config.
     andthen (lift (getitem config ''mtypeToProfileMapPath'')) (\<lambda>mtype_to_profile_map_path.
     andthen (lift (getitem config ''layerSlicesPath'')) (\<lambda>layer_slices_path.
     andthen (lift (getitem config ''densityProfilesDirPath'')) (\<lambda>density_profiles_dir_path.
     andthen (lift (density_profile_collection_load ext mtype_to_profile_map_path
                      layer_slices_path density_profiles_dir_path)) (\<lambda>density_profile_collection.
     andthen (lift (json_load ext metadata_path)) (\<lambda>metadata.
     andthen (lift (region_map_load_json ext hierarchy_path)) (\<lambda>region_map.
     andthen (lift (load_nrrd ext annotation_path)) (\<lambda>annotation.
     andthen (lift (load_nrrd ext direction_vectors_path)) (\<lambda>direction_vectors.
     andthen (lift (load_if_configured ext config ''inhibitoryNeuronDensityPath''))
       (\<lambda>inhibitory_neuron_density.
     andthen (lift (load_if_configured ext config ''excitatoryNeuronDensityPath''))
       (\<lambda>excitatory_neuron_density.
     let voxeldata = [annotation, direction_vectors] @ appended inhibitory_neuron_density
                       @ appended excitatory_neuron_density
     in if inhibitory_neuron_density = None \<and> inhibitory_neuron_density = None
        then lift (Inl (AtlasDensitiesError NoNeuronDensityFiles))
        else andthen (lift (assert_meta_properties voxeldata)) (\<lambda>_.
             create_mtype_densities ext density_profile_collection annotation region_map
               metadata (asarray_float32 ext (raw direction_vectors)) output_dir
               excitatory_neuron_density inhibitory_neuron_density))))))))))))"

section \<open>The command create_from_probability_map\<close>

fun load_probability_maps ::
  "('dpc, 'rm, 'md, 'pm) ext \<Rightarrow> string list \<Rightarrow> error + 'pm list" where
  "load_probability_maps ext [] = Inr []"
| "load_probability_maps ext (probability_map_path # rest) =
     (case load_probability_map ext probability_map_path of
        Inl e \<Rightarrow> Inl e
      | Inr loaded_probability_map \<Rightarrow>
          (case load_probability_maps ext rest of
             Inl e \<Rightarrow> Inl e
           | Inr probability_maps \<Rightarrow> Inr (loaded_probability_map # probability_maps)))"

text \<open>
  Storing under a key of a Python dictionary: a key already there keeps its place and
  takes the new value, a new key goes to the end.
\<close>

definition dict_set :: "(string \<times> 'v) list \<Rightarrow> string \<Rightarrow> 'v \<Rightarrow> (string \<times> 'v) list" where
  "dict_set d k v =
     (if k \<in> set (map fst d) then map (\<lambda>(k', v'). if k' = k then (k', v) else (k', v')) d
      else d @ [(k, v)])"

text \<open>The dictionary comprehension over the markers, in the order of the command line.\<close>

fun load_molecular_type_densities ::
  "('dpc, 'rm, 'md, 'pm) ext \<Rightarrow> (string \<times> string) list \<Rightarrow> (string \<times> voxeldata) list \<Rightarrow>
   error + (string \<times> voxeldata) list" where
  "load_molecular_type_densities ext [] acc = Inr acc"
| "load_molecular_type_densities ext ((molecular_type, density_path) # rest) acc =
     (case load_nrrd ext density_path of
        Inl e \<Rightarrow> Inl e
      | Inr v \<Rightarrow> load_molecular_type_densities ext rest (dict_set acc molecular_type v))"

definition create_from_probability_map ::
  "('dpc, 'rm, 'md, 'pm) ext \<Rightarrow> string \<Rightarrow> string \<Rightarrow> string list \<Rightarrow> (string \<times> string) list \<Rightarrow>
   string \<Rightarrow> string \<Rightarrow> int \<Rightarrow> unit io" where
  "create_from_probability_map ext annotation_path hierarchy_path probability_map marker
       synapse_class output_dir n_jobs =
     andthen (lift (load_probability_maps ext probability_map)) (\<lambda>probability_maps.
     andthen (lift (region_map_load_json ext hierarchy_path)) (\<lambda>region_map.
     andthen (lift (load_nrrd ext annotation_path)) (\<lambda>annotation.
     andthen (lift (load_molecular_type_densities ext marker [])) (\<lambda>molecular_type_densities.
     let voxeldata = [annotation] @ map snd molecular_type_densities
     in andthen (lift (assert_meta_properties voxeldata)) (\<lambda>_.
        create_from_map ext annotation region_map
          (map (\<lambda>(molecular_type, density). (molecular_type, raw density)) molecular_type_densities)
          probability_maps synapse_class output_dir n_jobs)))))"

section \<open>The command create_from_composition\<close>

definition load_neuronal_mtype_taxonomy ::
  "('dpc, 'rm, 'md, 'pm) ext \<Rightarrow> string \<Rightarrow> error + dataframe" where
  "load_neuronal_mtype_taxonomy ext filename = read_csv ext filename"

text \<open>One turn of the loader's loop: the keys are read in the order of the source.\<close>

definition composition_row :: "entry_dict \<Rightarrow> error + comp_row" where
  "composition_row entry =
     (case entry_traits entry of
        None \<Rightarrow> Inl (KeyError ''traits'')
      | Some traits \<Rightarrow>
          (case entry_density entry of
             None \<Rightarrow> Inl (KeyError ''density'')
           | Some d \<Rightarrow>
               (case traits_layer traits of
                  None \<Rightarrow> Inl (KeyError ''layer'')
                | Some l \<Rightarrow>
                    (case traits_mtype traits of
                       None \<Rightarrow> Inl (KeyError ''mtype'')
                     | Some m \<Rightarrow>
                         Inr \<lparr>row_density = d, row_layer = ''layer_'' @ l, row_mtype = m\<rparr>))))"

fun composition_rows :: "entry_dict list \<Rightarrow> error + composition" where
  "composition_rows [] = Inr []"
| "composition_rows (entry # rest) =
     (case composition_row entry of
        Inl e \<Rightarrow> Inl e
      | Inr r \<Rightarrow> (case composition_rows rest of Inl e \<Rightarrow> Inl e | Inr rs \<Rightarrow> Inr (r # rs)))"

definition load_neuronal_mtype_composition ::
  "('dpc, 'rm, 'md, 'pm) ext \<Rightarrow> string \<Rightarrow> error + composition" where
  "load_neuronal_mtype_composition ext filename =
     (case yaml_safe_load ext filename of
        Inl e \<Rightarrow> Inl e
      | Inr doc \<Rightarrow>
          (case getitem doc ''neurons'' of
             Inl e \<Rightarrow> Inl e
           | Inr composition \<Rightarrow> composition_rows composition))"

text \<open>The loop that writes one file for each pair the generator yields.\<close>

fun save_all :: "voxeldata \<Rightarrow> string \<Rightarrow> (string \<times> ndarray) list \<Rightarrow> world \<Rightarrow> world" where
  "save_all annotation output_dir [] w = w"
| "save_all annotation output_dir ((mtype, density) # rest) w =
     save_all annotation output_dir rest
       (save_nrrd (with_data annotation density) (Path output_dir (mtype @ ''_densities.nrrd'')) w)"

definition write_mtype_densities ::
  "voxeldata \<Rightarrow> string \<Rightarrow> (string \<times> ndarray) list \<times> error option \<Rightarrow> unit io" where
  "write_mtype_densities annotation output_dir gen w =
     ((case snd gen of None \<Rightarrow> Inr () | Some e \<Rightarrow> Inl e),
      save_all annotation output_dir (fst gen) w)"

definition create_from_composition ::
  "('dpc, 'rm, 'md, 'pm) ext \<Rightarrow> string \<Rightarrow> string \<Rightarrow> string \<Rightarrow> string \<Rightarrow> string \<Rightarrow> string \<Rightarrow> string \<Rightarrow>
   unit io" where
  "create_from_composition ext annotation_path hierarchy_path metadata_path
       excitatory_neuron_density_path taxonomy_path composition_path output_dir =
     andthen (lift (load_nrrd ext annotation_path)) (\<lambda>annotation.
     andthen (lift (region_map_load_json ext hierarchy_path)) (\<lambda>region_map.
     andthen (lift (json_load ext metadata_path)) (\<lambda>metadata.
     andthen (lift (load_nrrd ext excitatory_neuron_density_path)) (\<lambda>excitatory_neuron_density.
     andthen (lift (validate_density excitatory_neuron_density)) (\<lambda>_.
     andthen (lift (load_neuronal_mtype_taxonomy ext taxonomy_path)) (\<lambda>neuronal_mtype_taxonomy.
     andthen (lift (validate_mtype_taxonomy neuronal_mtype_taxonomy)) (\<lambda>_.
     andthen (lift (load_neuronal_mtype_composition ext composition_path))
       (\<lambda>neuronal_mtype_composition.
     andthen (lift (validate_neuronal_mtype_composition neuronal_mtype_composition)) (\<lambda>_.
     andthen (lift (assert_properties [annotation, excitatory_neuron_density])) (\<lambda>_.
     andthen (lift (check_taxonomy_composition_congruency neuronal_mtype_taxonomy
                      neuronal_mtype_composition)) (\<lambda>_.
     write_mtype_densities annotation output_dir
       (create_from_composition_core ext annotation region_map metadata
          (raw excitatory_neuron_density) neuronal_mtype_taxonomy
          neuronal_mtype_composition))))))))))))"

section \<open>A sample installation\<close>

text \<open>
  Concrete collaborators for running the commands on small inputs: volumes of two voxels
  that agree on voxel dimensions and offset, but for \<^verbatim>\<open>shifted.nrrd\<close>, whose offset
  differs, and \<^verbatim>\<open>zero.nrrd\<close>, which is zero everywhere. The allocation routines
  of the sample write or yield one volume each.
\<close>

definition sample_volume :: "nat list \<Rightarrow> fval list \<Rightarrow> real list \<Rightarrow> voxeldata" where
  "sample_volume sh vs off =
     \<lparr>raw = \<lparr>arr_shape = sh, arr_data = vs\<rparr>, voxel_dimensions = [25, 25, 25], offset = off\<rparr>"

definition sample_annotation :: voxeldata where
  "sample_annotation = sample_volume [1, 1, 2] [Finite 1, Finite 2] [0, 0, 0]"

definition sample_direction_vectors :: voxeldata where
  "sample_direction_vectors =
     sample_volume [1, 1, 2, 3]
       [Finite 0, Finite 0, Finite 1, Finite 0, Finite 1, Finite 0] [0, 0, 0]"

definition sample_excitatory :: voxeldata where
  "sample_excitatory = sample_volume [1, 1, 2] [Finite 4, Finite 6] [0, 0, 0]"

definition sample_inhibitory :: voxeldata where
  "sample_inhibitory = sample_volume [1, 1, 2] [Finite 1, Finite 3] [0, 0, 0]"

definition sample_shifted :: voxeldata where
  "sample_shifted = sample_volume [1, 1, 2] [Finite 4, Finite 6] [10, 0, 0]"

definition sample_zero :: voxeldata where
  "sample_zero = sample_volume [1, 1, 2] [Finite 0, Finite 0] [0, 0, 0]"

definition sample_load_nrrd :: "string \<Rightarrow> error + voxeldata" where
  "sample_load_nrrd p =
     (if p = ''annotation.nrrd'' then Inr sample_annotation
      else if p = ''direction_vectors.nrrd'' then Inr sample_direction_vectors
      else if p = ''exc.nrrd'' then Inr sample_excitatory
      else if p = ''inh.nrrd'' then Inr sample_inhibitory
      else if p = ''shifted.nrrd'' then Inr sample_shifted
      else if p = ''zero.nrrd'' then Inr sample_zero
      else Inl (External ''no such file''))"

definition sample_yaml_load :: "string \<Rightarrow> error + config" where
  "sample_yaml_load p =
     (let profiles = [(''mtypeToProfileMapPath'', ''mapping.tsv''),
                      (''layerSlicesPath'', ''layers.tsv''),
                      (''densityProfilesDirPath'', ''profiles'')]
      in if p = ''exc_only.yaml''
         then Inr (profiles @ [(''excitatoryNeuronDensityPath'', ''exc.nrrd'')])
         else if p = ''shifted.yaml''
         then Inr (profiles @ [(''inhibitoryNeuronDensityPath'', ''inh.nrrd''),
                               (''excitatoryNeuronDensityPath'', ''shifted.nrrd'')])
         else Inl (External ''no such file''))"

definition sample_ext :: "(unit, unit, unit, unit) ext" where
  "sample_ext =
     \<lparr>yaml_load = sample_yaml_load,
      density_profile_collection_load = (\<lambda>_ _ _. Inr ()),
      json_load = (\<lambda>_. Inr ()),
      region_map_load_json = (\<lambda>_. Inr ()),
      load_nrrd = sample_load_nrrd,
      asarray_float32 = (\<lambda>arr. arr),
      create_mtype_densities =
        (\<lambda>_ annotation _ _ _ output_dir _ _ w.
           (Inr (), save_nrrd annotation (Path output_dir ''profile_densities.nrrd'') w)),
      load_probability_map = (\<lambda>_. Inr ()),
      create_from_map =
        (\<lambda>annotation _ _ _ _ output_dir _ w.
           (Inr (), save_nrrd annotation (Path output_dir ''map_densities.nrrd'') w)),
      read_csv =
        (\<lambda>_. Inr [(''mtype'', [''L2_TPC:A'', ''L1_DAC'']), (''mClass'', [''PYR'', ''INT'']),
                   (''sClass'', [''EXC'', ''INH''])]),
      yaml_safe_load =
        (\<lambda>_. Inr [(''neurons'',
                    [\<lparr>entry_density = Some (Finite 100),
                      entry_traits = Some \<lparr>traits_layer = Some ''2'',
                                            traits_mtype = Some ''L2_TPC:A''\<rparr>\<rparr>,
                     \<lparr>entry_density = Some (Finite 50),
                      entry_traits = Some \<lparr>traits_layer = Some ''1'',
                                            traits_mtype = Some ''L1_DAC''\<rparr>\<rparr>])]),
      create_from_composition_core =
        (\<lambda>_ _ _ excitatory _ _. ([(''L2_TPC:A'', excitatory)], None))\<rparr>"

section \<open>Properties of the validation functions\<close>

text \<open>The set of values that appear in the sClass column; empty when there is no such column.\<close>

definition sclass_values :: "dataframe \<Rightarrow> string set" where
  "sclass_values taxonomy =
     (case map_of taxonomy ''sClass'' of None \<Rightarrow> {} | Some col \<Rightarrow> set col)"

lemma sclass_in_columns:
  assumes "{''mtype'', ''mClass'', ''sClass''} = set (columns t)"
  shows "\<exists>col. map_of t ''sClass'' = Some col"
proof -
  have "''sClass'' \<in> {''mtype'', ''mClass'', ''sClass''}" by simp
  with assms have "''sClass'' \<in> set (map fst t)" unfolding columns_def by (simp only:)
  then have "''sClass'' \<in> fst ` set t" by simp
  then have "map_of t ''sClass'' \<noteq> None" by (simp only: map_of_eq_None_iff not_not)
  then show ?thesis by blast
qed

lemma validate_mtype_taxonomy_cases:
  "validate_mtype_taxonomy t =
     (if set (columns t) \<noteq> {''mtype'', ''mClass'', ''sClass''}
      then Inl (AtlasDensitiesError
                 (ColumnNameMismatch {''mtype'', ''mClass'', ''sClass''} (columns t)))
      else if sclass_values t \<noteq> {''EXC'', ''INH''}
      then Inl (AtlasDensitiesError (SClassValuesDiffer {''EXC'', ''INH''} (sclass_values t)))
      else Inr ())"
proof (cases "{''mtype'', ''mClass'', ''sClass''} = set (columns t)")
  case True
  then obtain col where c: "map_of t ''sClass'' = Some col"
    using sclass_in_columns by blast
  define E where "E = {''mtype'', ''mClass'', ''sClass''}"
  define S where "S = {''EXC'', ''INH''}"
  have v: "validate_mtype_taxonomy t =
     (if S \<noteq> set col then Inl (AtlasDensitiesError (SClassValuesDiffer S (set col))) else Inr ())"
    unfolding validate_mtype_taxonomy_def Let_def getitem_def S_def using True c by simp
  have sv: "sclass_values t = set col" unfolding sclass_values_def using c by simp
  from True have ce: "set (columns t) = E" unfolding E_def by (rule sym)
  show ?thesis unfolding v sv ce E_def[symmetric] S_def[symmetric] by auto
next
  case False
  define E where "E = {''mtype'', ''mClass'', ''sClass''}"
  have v: "validate_mtype_taxonomy t =
      Inl (AtlasDensitiesError (ColumnNameMismatch E (columns t)))"
    unfolding validate_mtype_taxonomy_def Let_def E_def using False by simp
  from False have ne: "set (columns t) \<noteq> E" unfolding E_def by metis
  show ?thesis unfolding v E_def[symmetric] using ne by simp
qed

text \<open>
  C8. \<^verbatim>\<open>_check_config_sanity\<close> returns without error exactly when both keys
  \<^verbatim>\<open>probabilityMapPath\<close> and \<^verbatim>\<open>molecularTypeDensityPaths\<close> are among the keys of the
  configuration, whatever else is there; otherwise it raises an
  \<^verbatim>\<open>AtlasDensitiesError\<close> whose message names the missing ones of the two keys.
\<close>

theorem check_config_sanity_raises_iff:
  "check_config_sanity config =
     (if ''probabilityMapPath'' \<in> set (map fst config) \<and>
         ''molecularTypeDensityPaths'' \<in> set (map fst config)
      then Inr ()
      else Inl (AtlasDensitiesError (MissingConfigKeys
             ({''probabilityMapPath'', ''molecularTypeDensityPaths''} - set (map fst config)))))"
  unfolding check_config_sanity_def Let_def by auto

theorem check_config_sanity_witness:
  "check_config_sanity [(''probabilityMapPath'', ''map.csv''), (''outputDir'', ''out'')] =
     Inl (AtlasDensitiesError (MissingConfigKeys {''molecularTypeDensityPaths''}))
   \<and> check_config_sanity [(''molecularTypeDensityPaths'', ''pv.nrrd''),
        (''probabilityMapPath'', ''map.csv''), (''outputDir'', ''out'')] = Inr ()"
proof -
  have a: "check_config_sanity [(''probabilityMapPath'', ''map.csv''), (''outputDir'', ''out'')] =
     Inl (AtlasDensitiesError (MissingConfigKeys {''molecularTypeDensityPaths''}))"
    using check_config_sanity_raises_iff
      [of "[(''probabilityMapPath'', ''map.csv''), (''outputDir'', ''out'')]"]
    by simp
  have b: "check_config_sanity [(''molecularTypeDensityPaths'', ''pv.nrrd''),
        (''probabilityMapPath'', ''map.csv''), (''outputDir'', ''out'')] = Inr ()"
    using check_config_sanity_raises_iff
      [of "[(''molecularTypeDensityPaths'', ''pv.nrrd''),
            (''probabilityMapPath'', ''map.csv''), (''outputDir'', ''out'')]"]
    by simp
  from a b show ?thesis by (rule conjI)
qed

text \<open>
  C2. \<^verbatim>\<open>_validate_mtype_taxonomy\<close> raises an \<^verbatim>\<open>AtlasDensitiesError\<close> exactly when the
  set of columns of the taxonomy is not \<open>{mtype, mClass, sClass}\<close> or the set of values
  of its sClass column is not \<open>{EXC, INH}\<close>, and returns without error otherwise. A
  taxonomy whose sClass column holds only EXC is rejected.
\<close>

theorem validate_mtype_taxonomy_raises_iff:
  "((\<exists>m. validate_mtype_taxonomy t = Inl (AtlasDensitiesError m)) \<longleftrightarrow>
      (set (columns t) \<noteq> {''mtype'', ''mClass'', ''sClass''} \<or>
       sclass_values t \<noteq> {''EXC'', ''INH''}))
   \<and> (validate_mtype_taxonomy t = Inr () \<longleftrightarrow>
      (set (columns t) = {''mtype'', ''mClass'', ''sClass''} \<and>
       sclass_values t = {''EXC'', ''INH''}))"
  unfolding validate_mtype_taxonomy_cases [of t] by simp

theorem validate_mtype_taxonomy_only_exc:
  "\<exists>m. validate_mtype_taxonomy
     [(''mtype'', [''L2_TPC:A'', ''L2_IPC'']), (''mClass'', [''PYR'', ''PYR'']),
      (''sClass'', [''EXC'', ''EXC''])] = Inl (AtlasDensitiesError m)"
proof -
  let ?t = "[(''mtype'', [''L2_TPC:A'', ''L2_IPC'']), (''mClass'', [''PYR'', ''PYR'']),
      (''sClass'', [''EXC'', ''EXC''])]"
  have "sclass_values ?t = {''EXC''}" by (simp add: sclass_values_def)
  moreover have "{''EXC''} \<noteq> {''EXC'', ''INH''}" by simp
  ultimately have "sclass_values ?t \<noteq> {''EXC'', ''INH''}" by metis
  with validate_mtype_taxonomy_raises_iff [of ?t] show ?thesis by blast
qed

text \<open>
  C3. For a taxonomy that has an mtype column, \<^verbatim>\<open>_check_taxonomy_composition_congruency\<close>
  raises an \<^verbatim>\<open>AtlasDensitiesError\<close> exactly when the set of mtypes of the taxonomy
  differs from the set of mtypes of the composition, and the message then lists the
  mtypes that are in the taxonomy only and those that are in the composition only.
\<close>

theorem congruency_raises_iff:
  assumes "map_of taxonomy ''mtype'' = Some col"
  shows "check_taxonomy_composition_congruency taxonomy composition =
     (if set col = set (map row_mtype composition) then Inr ()
      else Inl (AtlasDensitiesError (InconsistentMtypes
             (set col - set (map row_mtype composition))
             (set (map row_mtype composition) - set col)
             (sorted_list_of_set (set col))
             (sorted_list_of_set (set (map row_mtype composition))))))"
  unfolding check_taxonomy_composition_congruency_def getitem_def Let_def
  using assms by simp

theorem congruency_witness:
  "\<exists>s1 s2. check_taxonomy_composition_congruency
     [(''mtype'', [''A'', ''B'']), (''mClass'', [''PYR'', ''INT'']), (''sClass'', [''EXC'', ''INH''])]
     [\<lparr>row_density = Finite 1, row_layer = ''layer_1'', row_mtype = ''A''\<rparr>,
      \<lparr>row_density = Finite 2, row_layer = ''layer_2'', row_mtype = ''C''\<rparr>] =
     Inl (AtlasDensitiesError (InconsistentMtypes {''B''} {''C''} s1 s2))"
proof -
  let ?t = "[(''mtype'', [''A'', ''B'']), (''mClass'', [''PYR'', ''INT'']),
             (''sClass'', [''EXC'', ''INH''])]"
  let ?c = "[\<lparr>row_density = Finite 1, row_layer = ''layer_1'', row_mtype = ''A''\<rparr>,
             \<lparr>row_density = Finite 2, row_layer = ''layer_2'', row_mtype = ''C''\<rparr>]"
  have h: "map_of ?t ''mtype'' = Some [''A'', ''B'']" by simp
  have m: "map row_mtype ?c = [''A'', ''C'']" by simp
  have ne: "set [''A'', ''B''] \<noteq> set [''A'', ''C'']"
  proof
    assume "set [''A'', ''B''] = set [''A'', ''C'']"
    moreover have "''B'' \<in> set [''A'', ''B'']" by simp
    ultimately have "''B'' \<in> set [''A'', ''C'']" by (simp only:)
    then show False by simp
  qed
  have d1: "set [''A'', ''B''] - set [''A'', ''C''] = {''B''}" by simp
  have d2: "set [''A'', ''C''] - set [''A'', ''B''] = {''C''}" by simp
  have "check_taxonomy_composition_congruency ?t ?c =
     Inl (AtlasDensitiesError (InconsistentMtypes {''B''} {''C''}
            (sorted_list_of_set (set [''A'', ''B''])) (sorted_list_of_set (set [''A'', ''C'']))))"
    unfolding congruency_raises_iff [OF h, of ?c] m d1 d2 using ne by (simp only: if_False)
  then show ?thesis by blast
qed

text \<open>
  C7. A negative value in a density input is fatal: \<^verbatim>\<open>_validate_density\<close> raises an
  \<^verbatim>\<open>AtlasDensitiesError\<close> when some voxel of the field is below zero (with the message
  of the all-zero test when the field is also close to zero everywhere, with the message
  for negative values otherwise), and \<^verbatim>\<open>_validate_neuronal_mtype_composition\<close> raises
  one when some density of the composition is below zero.
\<close>

theorem negative_values_raise:
  "((\<exists>v \<in> set (arr_data (raw d)). fless v (Finite 0)) \<longrightarrow>
      validate_density d = Inl (AtlasDensitiesError
        (if allclose (raw d) (Finite 0) then ZerosEverywhere else NegativeValues)))
   \<and> ((\<exists>r \<in> set composition. fless (row_density r) (Finite 0)) \<longrightarrow>
      validate_neuronal_mtype_composition composition =
        Inl (AtlasDensitiesError NegativeComposition))"
  unfolding validate_density_def any_less_def validate_neuronal_mtype_composition_def list_ex_iff
  by auto

theorem negative_values_raise_witness:
  "validate_density
     \<lparr>raw = \<lparr>arr_shape = [1, 1, 2], arr_data = [Finite 3, Finite (- 1)]\<rparr>,
      voxel_dimensions = [25, 25, 25], offset = [0, 0, 0]\<rparr> =
     Inl (AtlasDensitiesError NegativeValues)
   \<and> validate_neuronal_mtype_composition
       [\<lparr>row_density = Finite 5, row_layer = ''layer_1'', row_mtype = ''A''\<rparr>,
        \<lparr>row_density = Finite (- 2), row_layer = ''layer_2'', row_mtype = ''B''\<rparr>] =
     Inl (AtlasDensitiesError NegativeComposition)"
proof -
  let ?d = "\<lparr>raw = \<lparr>arr_shape = [1, 1, 2], arr_data = [Finite 3, Finite (- 1)]\<rparr>,
             voxel_dimensions = [25, 25, 25], offset = [0, 0, 0]\<rparr>"
  let ?c = "[\<lparr>row_density = Finite 5, row_layer = ''layer_1'', row_mtype = ''A''\<rparr>,
             \<lparr>row_density = Finite (- 2), row_layer = ''layer_2'', row_mtype = ''B''\<rparr>]"
  have h1: "\<exists>v \<in> set (arr_data (raw ?d)). fless v (Finite 0)" by simp
  have h2: "\<exists>r \<in> set ?c. fless (row_density r) (Finite 0)" by simp
  have nz: "\<not> allclose (raw ?d) (Finite 0)" by (simp add: allclose_def atol_def rtol_def)
  from negative_values_raise [of ?d ?c] h1 h2 nz show ?thesis by simp
qed

text \<open>
  C9. The all-zero test of \<^verbatim>\<open>_validate_density\<close> is a test within a tolerance: a field
  all of whose values are above zero and within the default tolerance of
  \<^verbatim>\<open>np.allclose\<close> of zero is rejected with the message of the all-zero test, although
  no value of it is zero.
\<close>

theorem validate_density_tolerance:
  assumes "\<forall>v \<in> set (arr_data (raw d)). fless (Finite 0) v \<and> isclose v (Finite 0)"
  shows "validate_density d = Inl (AtlasDensitiesError ZerosEverywhere) \<and>
         Finite 0 \<notin> set (arr_data (raw d))"
proof -
  from assms have "allclose (raw d) (Finite 0)"
    unfolding allclose_def list_all_iff by blast
  moreover have "Finite 0 \<notin> set (arr_data (raw d))" using assms by force
  ultimately show ?thesis unfolding validate_density_def by simp
qed

theorem validate_density_tolerance_witness:
  "validate_density
     \<lparr>raw = \<lparr>arr_shape = [1, 1, 2],
              arr_data = [Finite (1 / 1000000000), Finite (1 / 100000000)]\<rparr>,
      voxel_dimensions = [25, 25, 25], offset = [0, 0, 0]\<rparr> =
     Inl (AtlasDensitiesError ZerosEverywhere)"
proof -
  let ?d = "\<lparr>raw = \<lparr>arr_shape = [1, 1, 2],
                    arr_data = [Finite (1 / 1000000000), Finite (1 / 100000000)]\<rparr>,
             voxel_dimensions = [25, 25, 25], offset = [0, 0, 0]\<rparr>"
  have h: "\<forall>v \<in> set (arr_data (raw ?d)). fless (Finite 0) v \<and> isclose v (Finite 0)"
    by (simp add: atol_def rtol_def)
  from validate_density_tolerance [OF h] show ?thesis by (rule conjunct1)
qed

section \<open>Properties of the commands\<close>

lemma andthen_liftE:
  assumes "andthen (lift m) f w = (r, w')"
  obtains (raises) e where "m = Inl e" and "r = Inl e" and "w' = w"
    | (returns) x where "m = Inr x" and "f x w = (r, w')"
  using assms unfolding andthen_def lift_def by (cases m) auto

lemma save_all_append:
  "save_all a out items w =
     w @ map (\<lambda>(mtype, density). (Path out (mtype @ ''_densities.nrrd''), with_data a density)) items"
  by (induction items arbitrary: w) (auto simp: save_nrrd_def)

lemma composition_run:
  assumes "load_nrrd ext annotation_path = Inr a"
    and "region_map_load_json ext hierarchy_path = Inr rm"
    and "json_load ext metadata_path = Inr md"
    and "load_nrrd ext density_path = Inr exc"
    and "load_neuronal_mtype_taxonomy ext taxonomy_path = Inr taxonomy"
    and "load_neuronal_mtype_composition ext composition_path = Inr composition"
  shows "create_from_composition ext annotation_path hierarchy_path metadata_path density_path
           taxonomy_path composition_path output_dir w =
     (case validate_density exc of Inl e \<Rightarrow> (Inl e, w) | Inr _ \<Rightarrow>
      (case validate_mtype_taxonomy taxonomy of Inl e \<Rightarrow> (Inl e, w) | Inr _ \<Rightarrow>
      (case validate_neuronal_mtype_composition composition of Inl e \<Rightarrow> (Inl e, w) | Inr _ \<Rightarrow>
      (case assert_properties [a, exc] of Inl e \<Rightarrow> (Inl e, w) | Inr _ \<Rightarrow>
      (case check_taxonomy_composition_congruency taxonomy composition of
         Inl e \<Rightarrow> (Inl e, w)
       | Inr _ \<Rightarrow>
           write_mtype_densities a output_dir
             (create_from_composition_core ext a rm md (raw exc) taxonomy composition) w)))))"
  unfolding create_from_composition_def andthen_def lift_def
  by (simp add: assms split: sum.splits)

lemma composition_run_cases:
  assumes "create_from_composition ext annotation_path hierarchy_path metadata_path density_path
           taxonomy_path composition_path output_dir w = (r, w')"
  shows "(w' = w \<and> (\<exists>e. r = Inl e)) \<or>
     (\<exists>a rm md exc taxonomy composition.
        load_nrrd ext annotation_path = Inr a \<and>
        region_map_load_json ext hierarchy_path = Inr rm \<and>
        json_load ext metadata_path = Inr md \<and>
        load_nrrd ext density_path = Inr exc \<and>
        load_neuronal_mtype_taxonomy ext taxonomy_path = Inr taxonomy \<and>
        load_neuronal_mtype_composition ext composition_path = Inr composition \<and>
        validate_density exc = Inr () \<and>
        validate_mtype_taxonomy taxonomy = Inr () \<and>
        validate_neuronal_mtype_composition composition = Inr () \<and>
        assert_properties [a, exc] = Inr () \<and>
        check_taxonomy_composition_congruency taxonomy composition = Inr () \<and>
        (r, w') = write_mtype_densities a output_dir
           (create_from_composition_core ext a rm md (raw exc) taxonomy composition) w)"
  using assms unfolding create_from_composition_def
  by (elim andthen_liftE) auto

lemma profile_mismatch:
  assumes "yaml_load ext config_path = Inr config"
    and "load_nrrd ext annotation_path = Inr a"
    and "load_nrrd ext direction_vectors_path = Inr dv"
    and "load_if_configured ext config ''inhibitoryNeuronDensityPath'' = Inr inh"
    and "load_if_configured ext config ''excitatoryNeuronDensityPath'' = Inr exc"
    and "\<not> same_properties ([a, dv] @ appended inh @ appended exc)"
  shows "\<exists>e. create_from_profile ext annotation_path hierarchy_path metadata_path
           direction_vectors_path config_path output_dir w = (Inl e, w)"
  unfolding create_from_profile_def andthen_def lift_def assert_meta_properties_def Let_def
  using assms by (simp split: sum.splits)

lemma probability_map_mismatch:
  assumes "load_probability_maps ext probability_map = Inr maps"
    and "region_map_load_json ext hierarchy_path = Inr rm"
    and "load_nrrd ext annotation_path = Inr a"
    and "load_molecular_type_densities ext marker [] = Inr densities"
    and "\<not> same_properties ([a] @ map snd densities)"
  shows "create_from_probability_map ext annotation_path hierarchy_path probability_map marker
           synapse_class output_dir n_jobs w = (Inl MismatchError, w)"
  unfolding create_from_probability_map_def andthen_def lift_def assert_meta_properties_def Let_def
  using assms by simp

lemma composition_mismatch:
  assumes "load_nrrd ext annotation_path = Inr a"
    and "load_nrrd ext density_path = Inr exc"
    and "\<not> same_properties [a, exc]"
  shows "\<exists>e. create_from_composition ext annotation_path hierarchy_path metadata_path density_path
           taxonomy_path composition_path output_dir w = (Inl e, w)"
  unfolding create_from_composition_def andthen_def lift_def assert_properties_def
  using assms by (simp split: sum.splits)

lemma sample_composition:
  "load_neuronal_mtype_composition sample_ext p =
     Inr [\<lparr>row_density = Finite 100, row_layer = ''layer_2'', row_mtype = ''L2_TPC:A''\<rparr>,
          \<lparr>row_density = Finite 50, row_layer = ''layer_1'', row_mtype = ''L1_DAC''\<rparr>]"
  by (simp add: load_neuronal_mtype_composition_def sample_ext_def getitem_def
      composition_row_def)

lemma sample_taxonomy:
  "load_neuronal_mtype_taxonomy sample_ext p =
     Inr [(''mtype'', [''L2_TPC:A'', ''L1_DAC'']), (''mClass'', [''PYR'', ''INT'']),
          (''sClass'', [''EXC'', ''INH''])]"
  by (simp add: load_neuronal_mtype_taxonomy_def sample_ext_def)

lemma sample_taxonomy_valid:
  "validate_mtype_taxonomy
     [(''mtype'', [''L2_TPC:A'', ''L1_DAC'']), (''mClass'', [''PYR'', ''INT'']),
      (''sClass'', [''EXC'', ''INH''])] = Inr ()"
  by (simp add: validate_mtype_taxonomy_def columns_def getitem_def)

lemma sample_congruent:
  "check_taxonomy_composition_congruency
     [(''mtype'', [''L2_TPC:A'', ''L1_DAC'']), (''mClass'', [''PYR'', ''INT'']),
      (''sClass'', [''EXC'', ''INH''])]
     [\<lparr>row_density = Finite 100, row_layer = ''layer_2'', row_mtype = ''L2_TPC:A''\<rparr>,
      \<lparr>row_density = Finite 50, row_layer = ''layer_1'', row_mtype = ''L1_DAC''\<rparr>] = Inr ()"
  by (simp add: check_taxonomy_composition_congruency_def getitem_def)

lemma sample_composition_run:
  "create_from_composition sample_ext ''annotation.nrrd'' ''hierarchy.json'' ''metadata.json''
     ''exc.nrrd'' ''taxonomy.tsv'' ''composition.yaml'' ''out'' [] =
   (Inr (), [(Path ''out'' ''L2_TPC:A_densities.nrrd'', sample_excitatory)])"
proof -
  have a: "load_nrrd sample_ext ''annotation.nrrd'' = Inr sample_annotation"
    by (simp add: sample_ext_def sample_load_nrrd_def)
  have e: "load_nrrd sample_ext ''exc.nrrd'' = Inr sample_excitatory"
    by (simp add: sample_ext_def sample_load_nrrd_def)
  have rm: "region_map_load_json sample_ext ''hierarchy.json'' = Inr ()"
    by (simp add: sample_ext_def)
  have md: "json_load sample_ext ''metadata.json'' = Inr ()"
    by (simp add: sample_ext_def)
  have vd: "validate_density sample_excitatory = Inr ()"
    by (simp add: validate_density_def sample_excitatory_def sample_volume_def allclose_def
        any_less_def atol_def rtol_def)
  have vc: "validate_neuronal_mtype_composition
      [\<lparr>row_density = Finite 100, row_layer = ''layer_2'', row_mtype = ''L2_TPC:A''\<rparr>,
       \<lparr>row_density = Finite 50, row_layer = ''layer_1'', row_mtype = ''L1_DAC''\<rparr>] = Inr ()"
    by (simp add: validate_neuronal_mtype_composition_def)
  have ap: "assert_properties [sample_annotation, sample_excitatory] = Inr ()"
    by (simp add: assert_properties_def same_properties_def sample_annotation_def
        sample_excitatory_def sample_volume_def shape_def)
  have core: "create_from_composition_core sample_ext a' rm' md' ex tax' cmp' =
      ([(''L2_TPC:A'', ex)], None)" for a' rm' md' ex tax' cmp'
    by (simp add: sample_ext_def)
  have wd: "with_data sample_annotation (raw sample_excitatory) = sample_excitatory"
    by (simp add: with_data_def sample_annotation_def sample_excitatory_def sample_volume_def)
  show ?thesis
    unfolding composition_run [OF a rm md e sample_taxonomy sample_composition]
    by (simp add: vd vc ap sample_taxonomy_valid sample_congruent core write_mtype_densities_def
        save_nrrd_def wd)
qed

text \<open>
  C4. In \<^verbatim>\<open>create_from_composition\<close> every validation comes before the first file is
  written: a run that writes any file has loaded its inputs and passed the density check,
  the taxonomy check, the composition check, the check of the field properties and the
  congruency check. Hence a run in which one of these checks raises writes no file.
\<close>

theorem validations_precede_output:
  assumes "create_from_composition ext annotation_path hierarchy_path metadata_path density_path
             taxonomy_path composition_path output_dir w = (r, w')"
    and "w' \<noteq> w"
  shows "\<exists>a exc taxonomy composition.
     load_nrrd ext annotation_path = Inr a \<and>
     load_nrrd ext density_path = Inr exc \<and>
     load_neuronal_mtype_taxonomy ext taxonomy_path = Inr taxonomy \<and>
     load_neuronal_mtype_composition ext composition_path = Inr composition \<and>
     validate_density exc = Inr () \<and>
     validate_mtype_taxonomy taxonomy = Inr () \<and>
     validate_neuronal_mtype_composition composition = Inr () \<and>
     assert_properties [a, exc] = Inr () \<and>
     check_taxonomy_composition_congruency taxonomy composition = Inr ()"
  using composition_run_cases [OF assms(1)] assms(2) by blast

theorem validations_precede_output_witness:
  "\<exists>a exc taxonomy composition.
     load_nrrd sample_ext ''annotation.nrrd'' = Inr a \<and>
     load_nrrd sample_ext ''exc.nrrd'' = Inr exc \<and>
     load_neuronal_mtype_taxonomy sample_ext ''taxonomy.tsv'' = Inr taxonomy \<and>
     load_neuronal_mtype_composition sample_ext ''composition.yaml'' = Inr composition \<and>
     validate_density exc = Inr () \<and>
     validate_mtype_taxonomy taxonomy = Inr () \<and>
     validate_neuronal_mtype_composition composition = Inr () \<and>
     assert_properties [a, exc] = Inr () \<and>
     check_taxonomy_composition_congruency taxonomy composition = Inr ()"
proof -
  have ne: "[(Path ''out'' ''L2_TPC:A_densities.nrrd'', sample_excitatory)] \<noteq> []"
    by simp
  from validations_precede_output [OF sample_composition_run ne] show ?thesis .
qed

text \<open>
  C10. When the inputs load and the five checks pass, \<^verbatim>\<open>create_from_composition\<close>
  writes, for every pair \<open>(mtype, density)\<close> that the generator yields and in the order
  of the generator, the volume \<^verbatim>\<open>annotation.with_data(density)\<close> under the name
  \<^verbatim>\<open>{mtype}_densities.nrrd\<close> in the output directory, and nothing else; every file
  so written has the voxel dimensions and the offset of the annotation.
\<close>

theorem written_files_carry_annotation_metadata:
  assumes "load_nrrd ext annotation_path = Inr a"
    and "region_map_load_json ext hierarchy_path = Inr rm"
    and "json_load ext metadata_path = Inr md"
    and "load_nrrd ext density_path = Inr exc"
    and "load_neuronal_mtype_taxonomy ext taxonomy_path = Inr taxonomy"
    and "load_neuronal_mtype_composition ext composition_path = Inr composition"
    and "validate_density exc = Inr ()"
    and "validate_mtype_taxonomy taxonomy = Inr ()"
    and "validate_neuronal_mtype_composition composition = Inr ()"
    and "assert_properties [a, exc] = Inr ()"
    and "check_taxonomy_composition_congruency taxonomy composition = Inr ()"
  shows "create_from_composition ext annotation_path hierarchy_path metadata_path density_path
           taxonomy_path composition_path output_dir w =
       ((case snd (create_from_composition_core ext a rm md (raw exc) taxonomy composition) of
           None \<Rightarrow> Inr ()
         | Some e \<Rightarrow> Inl e),
        w @ map (\<lambda>(mtype, density).
                   (Path output_dir (mtype @ ''_densities.nrrd''), with_data a density))
              (fst (create_from_composition_core ext a rm md (raw exc) taxonomy composition)))
     \<and> (\<forall>(p, v) \<in> set (drop (length w)
            (snd (create_from_composition ext annotation_path hierarchy_path metadata_path
                    density_path taxonomy_path composition_path output_dir w))).
          voxel_dimensions v = voxel_dimensions a \<and> offset v = offset a)"
proof -
  let ?save = "\<lambda>(mtype, density).
                 (Path output_dir (mtype @ ''_densities.nrrd''), with_data a density)"
  let ?gen = "create_from_composition_core ext a rm md (raw exc) taxonomy composition"
  have run: "create_from_composition ext annotation_path hierarchy_path metadata_path density_path
           taxonomy_path composition_path output_dir w =
       ((case snd ?gen of None \<Rightarrow> Inr () | Some e \<Rightarrow> Inl e), w @ map ?save (fst ?gen))"
    unfolding composition_run [OF assms(1-6)]
    by (simp add: assms(7-11) write_mtype_densities_def save_all_append)
  have meta: "\<forall>(p, v) \<in> set (map ?save (fst ?gen)).
      voxel_dimensions v = voxel_dimensions a \<and> offset v = offset a"
    by (auto simp: with_data_def)
  from run meta show ?thesis by simp
qed

theorem written_files_carry_annotation_metadata_witness:
  "create_from_composition sample_ext ''annotation.nrrd'' ''hierarchy.json'' ''metadata.json''
     ''exc.nrrd'' ''taxonomy.tsv'' ''composition.yaml'' ''out'' [] =
     (Inr (), [(Path ''out'' ''L2_TPC:A_densities.nrrd'',
                with_data sample_annotation (raw sample_excitatory))])
   \<and> map (\<lambda>(p, v). (voxel_dimensions v, offset v))
       (snd (create_from_composition sample_ext ''annotation.nrrd'' ''hierarchy.json''
          ''metadata.json'' ''exc.nrrd'' ''taxonomy.tsv'' ''composition.yaml'' ''out'' [])) =
     [([25, 25, 25], [0, 0, 0])]"
proof -
  let ?taxonomy = "[(''mtype'', [''L2_TPC:A'', ''L1_DAC'']), (''mClass'', [''PYR'', ''INT'']),
                    (''sClass'', [''EXC'', ''INH''])]"
  let ?composition =
    "[\<lparr>row_density = Finite 100, row_layer = ''layer_2'', row_mtype = ''L2_TPC:A''\<rparr>,
      \<lparr>row_density = Finite 50, row_layer = ''layer_1'', row_mtype = ''L1_DAC''\<rparr>]"
  have a: "load_nrrd sample_ext ''annotation.nrrd'' = Inr sample_annotation"
    by (simp add: sample_ext_def sample_load_nrrd_def)
  have e: "load_nrrd sample_ext ''exc.nrrd'' = Inr sample_excitatory"
    by (simp add: sample_ext_def sample_load_nrrd_def)
  have rm: "region_map_load_json sample_ext ''hierarchy.json'' = Inr ()"
    by (simp add: sample_ext_def)
  have md: "json_load sample_ext ''metadata.json'' = Inr ()"
    by (simp add: sample_ext_def)
  have vd: "validate_density sample_excitatory = Inr ()"
    by (simp add: validate_density_def sample_excitatory_def sample_volume_def allclose_def
        any_less_def atol_def rtol_def)
  have vc: "validate_neuronal_mtype_composition ?composition = Inr ()"
    by (simp add: validate_neuronal_mtype_composition_def)
  have ap: "assert_properties [sample_annotation, sample_excitatory] = Inr ()"
    by (simp add: assert_properties_def same_properties_def sample_annotation_def
        sample_excitatory_def sample_volume_def shape_def)
  have core: "create_from_composition_core sample_ext sample_annotation () ()
      (raw sample_excitatory) ?taxonomy ?composition =
      ([(''L2_TPC:A'', raw sample_excitatory)], None)"
    by (simp add: sample_ext_def)
  have vdim: "voxel_dimensions sample_annotation = [25, 25, 25]"
    by (simp add: sample_annotation_def sample_volume_def)
  have off: "offset sample_annotation = [0, 0, 0]"
    by (simp add: sample_annotation_def sample_volume_def)
  note th = written_files_carry_annotation_metadata
    [where taxonomy_path = "''taxonomy.tsv''" and composition_path = "''composition.yaml''"
       and output_dir = "''out''" and w = "[]",
     OF a rm md e sample_taxonomy sample_composition vd sample_taxonomy_valid vc ap
        sample_congruent]
  from th [THEN conjunct1] have r:
    "create_from_composition sample_ext ''annotation.nrrd'' ''hierarchy.json'' ''metadata.json''
       ''exc.nrrd'' ''taxonomy.tsv'' ''composition.yaml'' ''out'' [] =
     (Inr (), [(Path ''out'' ''L2_TPC:A_densities.nrrd'',
                with_data sample_annotation (raw sample_excitatory))])"
    unfolding core by simp
  have m:
    "map (\<lambda>(p, v). (voxel_dimensions v, offset v))
       (snd (create_from_composition sample_ext ''annotation.nrrd'' ''hierarchy.json''
          ''metadata.json'' ''exc.nrrd'' ''taxonomy.tsv'' ''composition.yaml'' ''out'' [])) =
     [([25, 25, 25], [0, 0, 0])]"
    unfolding r by (simp add: with_data_def vdim off)
  from r m show ?thesis by (rule conjI)
qed

text \<open>
  C6. \<^verbatim>\<open>_validate_density\<close> raises an \<^verbatim>\<open>AtlasDensitiesError\<close> for a field that is zero
  everywhere; in \<^verbatim>\<open>create_from_composition\<close> such an excitatory density ends the run
  with this error before anything is allocated or written.
\<close>

theorem all_zero_density_is_fatal:
  assumes "\<forall>v \<in> set (arr_data (raw d)). v = Finite 0"
  shows "validate_density d = Inl (AtlasDensitiesError ZerosEverywhere) \<and>
     (load_nrrd ext annotation_path = Inr a \<and>
      region_map_load_json ext hierarchy_path = Inr rm \<and>
      json_load ext metadata_path = Inr md \<and>
      load_nrrd ext density_path = Inr d \<longrightarrow>
      create_from_composition ext annotation_path hierarchy_path metadata_path density_path
        taxonomy_path composition_path output_dir w =
      (Inl (AtlasDensitiesError ZerosEverywhere), w))"
proof -
  have "isclose (Finite 0) (Finite 0)" by (simp add: atol_def rtol_def)
  with assms have "allclose (raw d) (Finite 0)"
    unfolding allclose_def list_all_iff by auto
  then have v: "validate_density d = Inl (AtlasDensitiesError ZerosEverywhere)"
    unfolding validate_density_def by simp
  show ?thesis
    unfolding create_from_composition_def andthen_def lift_def
    by (simp add: v)
qed

theorem all_zero_density_is_fatal_witness:
  "validate_density sample_zero = Inl (AtlasDensitiesError ZerosEverywhere) \<and>
   create_from_composition sample_ext ''annotation.nrrd'' ''hierarchy.json'' ''metadata.json''
     ''zero.nrrd'' ''taxonomy.tsv'' ''composition.yaml'' ''out'' [] =
   (Inl (AtlasDensitiesError ZerosEverywhere), [])"
proof -
  have h: "\<forall>v \<in> set (arr_data (raw sample_zero)). v = Finite 0"
    by (simp add: sample_zero_def sample_volume_def)
  have l: "load_nrrd sample_ext ''annotation.nrrd'' = Inr sample_annotation \<and>
      region_map_load_json sample_ext ''hierarchy.json'' = Inr () \<and>
      json_load sample_ext ''metadata.json'' = Inr () \<and>
      load_nrrd sample_ext ''zero.nrrd'' = Inr sample_zero"
    by (simp add: sample_ext_def sample_load_nrrd_def)
  from all_zero_density_is_fatal [OF h, of sample_ext "''annotation.nrrd''" sample_annotation
      "''hierarchy.json''" "()" "''metadata.json''" "()" "''zero.nrrd''"
      "''taxonomy.tsv''" "''composition.yaml''" "''out''" "[]"] l
  show ?thesis by blast
qed

text \<open>
  C5. Each command checks the fields it uses together before it calls its allocation
  routine and stops with an error, nothing written, when they disagree on shape, voxel
  dimensions or offset: \<^verbatim>\<open>create_from_profile\<close> checks the annotation, the direction
  vectors and every neuron density of the configuration; \<^verbatim>\<open>create_from_probability_map\<close>
  the annotation and every marker density; \<^verbatim>\<open>create_from_composition\<close> the annotation
  and the excitatory density.
\<close>

theorem commands_check_field_consistency:
  "(yaml_load ext config_path = Inr config \<and>
    load_nrrd ext annotation_path = Inr a \<and>
    load_nrrd ext direction_vectors_path = Inr dv \<and>
    load_if_configured ext config ''inhibitoryNeuronDensityPath'' = Inr inh \<and>
    load_if_configured ext config ''excitatoryNeuronDensityPath'' = Inr exc \<and>
    \<not> same_properties ([a, dv] @ appended inh @ appended exc) \<longrightarrow>
    (\<exists>e. create_from_profile ext annotation_path hierarchy_path metadata_path
            direction_vectors_path config_path output_dir w = (Inl e, w)))
   \<and>
   (load_probability_maps ext probability_map = Inr maps \<and>
    region_map_load_json ext hierarchy_path = Inr rm \<and>
    load_nrrd ext annotation_path = Inr a \<and>
    load_molecular_type_densities ext marker [] = Inr densities \<and>
    \<not> same_properties ([a] @ map snd densities) \<longrightarrow>
    create_from_probability_map ext annotation_path hierarchy_path probability_map marker
      synapse_class output_dir n_jobs w = (Inl MismatchError, w))
   \<and>
   (load_nrrd ext annotation_path = Inr a \<and>
    load_nrrd ext density_path = Inr density \<and>
    \<not> same_properties [a, density] \<longrightarrow>
    (\<exists>e. create_from_composition ext annotation_path hierarchy_path metadata_path density_path
            taxonomy_path composition_path output_dir w = (Inl e, w)))"
  using profile_mismatch [of ext config_path config annotation_path a direction_vectors_path dv
      inh exc hierarchy_path metadata_path output_dir w]
    probability_map_mismatch [of ext probability_map maps hierarchy_path rm annotation_path a
      marker densities synapse_class output_dir n_jobs w]
    composition_mismatch [of ext annotation_path a density_path density hierarchy_path
      metadata_path taxonomy_path composition_path output_dir w]
  by blast

theorem commands_check_field_consistency_witness:
  "(\<exists>e. create_from_profile sample_ext ''annotation.nrrd'' ''hierarchy.json'' ''metadata.json''
          ''direction_vectors.nrrd'' ''shifted.yaml'' ''out'' [] = (Inl e, []))
   \<and> create_from_probability_map sample_ext ''annotation.nrrd'' ''hierarchy.json''
       [''probability_map.csv''] [(''pv'', ''exc.nrrd''), (''sst'', ''shifted.nrrd'')]
       ''INH'' ''out'' 10 [] = (Inl MismatchError, [])
   \<and> (\<exists>e. create_from_composition sample_ext ''annotation.nrrd'' ''hierarchy.json''
          ''metadata.json'' ''shifted.nrrd'' ''taxonomy.tsv'' ''composition.yaml'' ''out'' [] =
          (Inl e, []))"
proof -
  let ?config = "[(''mtypeToProfileMapPath'', ''mapping.tsv''),
                  (''layerSlicesPath'', ''layers.tsv''),
                  (''densityProfilesDirPath'', ''profiles''),
                  (''inhibitoryNeuronDensityPath'', ''inh.nrrd''),
                  (''excitatoryNeuronDensityPath'', ''shifted.nrrd'')]"
  have c: "yaml_load sample_ext ''shifted.yaml'' = Inr ?config"
    by (simp add: sample_ext_def sample_yaml_load_def)
  have a: "load_nrrd sample_ext ''annotation.nrrd'' = Inr sample_annotation"
    by (simp add: sample_ext_def sample_load_nrrd_def)
  have dv: "load_nrrd sample_ext ''direction_vectors.nrrd'' = Inr sample_direction_vectors"
    by (simp add: sample_ext_def sample_load_nrrd_def)
  have s: "load_nrrd sample_ext ''shifted.nrrd'' = Inr sample_shifted"
    by (simp add: sample_ext_def sample_load_nrrd_def)
  have i: "load_if_configured sample_ext ?config ''inhibitoryNeuronDensityPath'' =
      Inr (Some sample_inhibitory)"
    by (simp add: load_if_configured_def getitem_def sample_ext_def sample_load_nrrd_def)
  have e: "load_if_configured sample_ext ?config ''excitatoryNeuronDensityPath'' =
      Inr (Some sample_shifted)"
    by (simp add: load_if_configured_def getitem_def sample_ext_def sample_load_nrrd_def)
  have off: "offset sample_shifted \<noteq> offset sample_annotation"
    by (simp add: sample_shifted_def sample_annotation_def sample_volume_def)
  have m1: "\<not> same_properties ([sample_annotation, sample_direction_vectors]
      @ appended (Some sample_inhibitory) @ appended (Some sample_shifted))"
    using off by (simp add: same_properties_def appended_def)
  have pm: "load_probability_maps sample_ext [''probability_map.csv''] = Inr [()]"
    by (simp add: sample_ext_def)
  have rm: "region_map_load_json sample_ext ''hierarchy.json'' = Inr ()"
    by (simp add: sample_ext_def)
  have d: "load_molecular_type_densities sample_ext
      [(''pv'', ''exc.nrrd''), (''sst'', ''shifted.nrrd'')] [] =
      Inr [(''pv'', sample_excitatory), (''sst'', sample_shifted)]"
    by (simp add: sample_ext_def sample_load_nrrd_def dict_set_def)
  have m2: "\<not> same_properties ([sample_annotation]
      @ map snd [(''pv'', sample_excitatory), (''sst'', sample_shifted)])"
    using off by (simp add: same_properties_def)
  have m3: "\<not> same_properties [sample_annotation, sample_shifted]"
    using off by (simp add: same_properties_def)
  from commands_check_field_consistency [of sample_ext "''shifted.yaml''" ?config
      "''annotation.nrrd''" sample_annotation "''direction_vectors.nrrd''"
      sample_direction_vectors "Some sample_inhibitory" "Some sample_shifted"
      "''hierarchy.json''" "''metadata.json''" "''out''" "[]"
      "[''probability_map.csv'']" "[()]" "()"
      "[(''pv'', ''exc.nrrd''), (''sst'', ''shifted.nrrd'')]"
      "[(''pv'', sample_excitatory), (''sst'', sample_shifted)]" "''INH''" 10
      "''shifted.nrrd''" sample_shifted "''taxonomy.tsv''" "''composition.yaml''"]
    c a dv s i e m1 pm rm d m2 m3
  show ?thesis by blast
qed

text \<open>
  C1 on the code. A configuration that supplies the excitatory density and not the
  inhibitory one: every file loads, and the command still stops with the error for no
  density at all, before the consistency check and the allocation.
\<close>

theorem create_from_profile_excitatory_only:
  "load_if_configured sample_ext
     [(''mtypeToProfileMapPath'', ''mapping.tsv''), (''layerSlicesPath'', ''layers.tsv''),
      (''densityProfilesDirPath'', ''profiles''),
      (''excitatoryNeuronDensityPath'', ''exc.nrrd'')]
     ''excitatoryNeuronDensityPath'' = Inr (Some sample_excitatory)
   \<and> create_from_profile sample_ext ''annotation.nrrd'' ''hierarchy.json'' ''metadata.json''
       ''direction_vectors.nrrd'' ''exc_only.yaml'' ''out'' [] =
     (Inl (AtlasDensitiesError NoNeuronDensityFiles), [])"
  by (simp add: create_from_profile_def andthen_def lift_def load_if_configured_def getitem_def
      sample_ext_def sample_yaml_load_def sample_load_nrrd_def)

end
